theory Spec2Isabelle
  imports Main
begin

section \<open>Python values, exceptions and the world outside the adapter\<close>

text \<open>
  The adapter in \<^verbatim>\<open>ckan/lib/search/elasticsearch\<close> passes Python dictionaries to an
  Elasticsearch client. A dictionary is an association list in insertion order, looked
  up with \<^const>\<open>map_of\<close>; its values are the JSON-like Python values.
\<close>

datatype val =
    VNone
  | VBool bool
  | VInt int
  | VStr string
  | VList "val list"
  | VDict "(string \<times> val) list"

type_synonym pydict = "(string \<times> val) list"

text \<open>Python truthiness, as \<^verbatim>\<open>if x\<close> and \<^verbatim>\<open>not x\<close> test it.\<close>

fun truthy :: "val \<Rightarrow> bool" where
  "truthy VNone = False"
| "truthy (VBool b) = b"
| "truthy (VInt i) = (i \<noteq> 0)"
| "truthy (VStr s) = (s \<noteq> [])"
| "truthy (VList xs) = (xs \<noteq> [])"
| "truthy (VDict d) = (d \<noteq> [])"

text \<open>
  Exceptions are values: the class decides which \<^verbatim>\<open>except\<close> clause catches it, the
  string is what \<^verbatim>\<open>str(e)\<close> and \<^verbatim>\<open>f"{e}"\<close> give. Every class below derives from
  \<^verbatim>\<open>Exception\<close>, so \<^verbatim>\<open>except Exception\<close> catches all of them.
  \<open>SearchIndexError\<close> is the local error of \<^verbatim>\<open>common.py\<close>, \<open>ElasticsearchIndexError\<close>
  that of \<^verbatim>\<open>__init__.py\<close>; \<open>NotFoundError\<close> is the client's; \<open>OtherException\<close>
  stands for any other class the client raises, by name.
\<close>

datatype exc_class =
    SearchIndexError
  | ElasticsearchIndexError
  | NotFoundError
  | KeyError
  | NameError
  | TypeError
  | NotImplementedError
  | OtherException string

datatype pyexc = Raise exc_class string

fun exc_cls :: "pyexc \<Rightarrow> exc_class" where
  "exc_cls (Raise c m) = c"

fun exc_str :: "pyexc \<Rightarrow> string" where
  "exc_str (Raise c m) = m"

text \<open>
  One invocation of a method of the client object. An index name and a document id are
  the Python values passed; an id the caller does not pass is the client's default
  \<^verbatim>\<open>None\<close>.
\<close>

datatype remote_call =
    Info
  | Index val val pydict
  | Update val val pydict
  | Delete val val
  | IndicesRefresh val
  | IndicesDelete val "int list"
  | IndicesCreate val

text \<open>
  The client is a parameter: given a call and the engine's state it raises or returns,
  and leaves a new engine state. The world threads the engine state, the trace of the
  calls made through the client, and the log.
\<close>

type_synonym 'e client = "remote_call \<Rightarrow> 'e \<Rightarrow> pyexc option \<times> 'e"

datatype level = DEBUG | INFO | WARNING | ERROR

text \<open>Keys of the index registry: hashable Python values, a class by its name.\<close>

datatype pykey = KNone | KBool bool | KInt int | KStr string | KClass string

datatype logarg = LVal val | LKey pykey

text \<open>A log record: level, the literal text of the message, the values interpolated.\<close>

type_synonym log_entry = "level \<times> string \<times> logarg list"

record 'e world =
  engine :: 'e
  calls :: "remote_call list"
  logs :: "log_entry list"

definition invoke :: "'e client \<Rightarrow> remote_call \<Rightarrow> 'e world \<Rightarrow> pyexc option \<times> 'e world" where
  "invoke es c w =
     (case es c (engine w) of
        (r, s') \<Rightarrow> (r, w\<lparr>engine := s', calls := calls w @ [c]\<rparr>))"

definition log_msg :: "level \<Rightarrow> string \<Rightarrow> logarg list \<Rightarrow> 'e world \<Rightarrow> 'e world" where
  "log_msg l m args w = w\<lparr>logs := logs w @ [(l, m, args)]\<rparr>"

text \<open>\<^verbatim>\<open>log.exception(e)\<close> logs \<^verbatim>\<open>str(e)\<close> at level ERROR.\<close>

definition log_exception :: "pyexc \<Rightarrow> 'e world \<Rightarrow> 'e world" where
  "log_exception e w = log_msg ERROR (exc_str e) [] w"

text \<open>\<^verbatim>\<open>config.get(key, default)\<close> of the host application's configuration.\<close>

type_synonym config = "string \<rightharpoonup> val"

definition config_get :: "config \<Rightarrow> string \<Rightarrow> val \<Rightarrow> val" where
  "config_get cfg k d = (case cfg k of None \<Rightarrow> d | Some v \<Rightarrow> v)"


section \<open>common.py: settings and the connection factory\<close>

definition DEFAULT_ELASTICSEARCH_URL :: string where
  "DEFAULT_ELASTICSEARCH_URL = ''http://127.0.0.1:9200''"

text \<open>The class attributes of \<^verbatim>\<open>SearchEngineSettings\<close>: process-wide state.\<close>

record SearchEngineSettings =
  st_is_initialised :: bool
  st_url :: "string option"
  st_user :: "string option"
  st_password :: "string option"

text \<open>The state at import time, before any call of \<^verbatim>\<open>init\<close>.\<close>

definition SearchEngineSettings_fresh :: SearchEngineSettings where
  "SearchEngineSettings_fresh =
     \<lparr>st_is_initialised = False, st_url = None, st_user = None, st_password = None\<rparr>"

definition SearchEngineSettings_init ::
  "string option \<Rightarrow> string option \<Rightarrow> string option \<Rightarrow> SearchEngineSettings \<Rightarrow> SearchEngineSettings"
where
  "SearchEngineSettings_init url user password cls =
     (case url of
        Some u \<Rightarrow> cls\<lparr>st_url := Some u, st_user := user, st_password := password,
                      st_is_initialised := True\<rparr>
      | None \<Rightarrow> cls\<lparr>st_url := Some DEFAULT_ELASTICSEARCH_URL, st_is_initialised := True\<rparr>)"

text \<open>\<^verbatim>\<open>not cls._url\<close> holds for \<^verbatim>\<open>None\<close> and for the empty string.\<close>

definition SearchEngineSettings_get ::
  "SearchEngineSettings \<Rightarrow> pyexc + (string \<times> string option \<times> string option)"
where
  "SearchEngineSettings_get cls =
     (if \<not> st_is_initialised cls then
        Inl (Raise SearchIndexError ''Elasticsearch URL not initialised'')
      else case st_url cls of
        None \<Rightarrow> Inl (Raise SearchIndexError ''Elasticsearch URL is blank'')
      | Some u \<Rightarrow>
          if u = [] then Inl (Raise SearchIndexError ''Elasticsearch URL is blank'')
          else Inr (u, st_user cls, st_password cls))"

text \<open>
  The handle \<^verbatim>\<open>Elasticsearch(hosts, http_auth=...)\<close>: building it contacts nothing.
  \<open>connection_timeout\<close> is the attribute \<^verbatim>\<open>make_connection\<close> sets afterwards.
\<close>

record Elasticsearch =
  hosts :: "val list"
  http_auth :: "(string \<times> string) option"
  connection_timeout :: "val option"

definition make_connection :: "SearchEngineSettings \<Rightarrow> config \<Rightarrow> pyexc + Elasticsearch" where
  "make_connection cls cfg =
     (case SearchEngineSettings_get cls of
        Inl e \<Rightarrow> Inl e
      | Inr (es_url, es_user, es_password) \<Rightarrow>
          let es =
            (case (es_user, es_password) of
               (Some u, Some p) \<Rightarrow>
                 if es_url \<noteq> [] \<and> u \<noteq> [] \<and> p \<noteq> [] then
                   \<lparr>hosts = [VStr es_url], http_auth = Some (u, p), connection_timeout = None\<rparr>
                 else \<lparr>hosts = [VStr es_url], http_auth = None, connection_timeout = None\<rparr>
             | _ \<Rightarrow> \<lparr>hosts = [VStr es_url], http_auth = None, connection_timeout = None\<rparr>);
            timeout = config_get cfg ''elasticsearch_timeout'' (VInt 10)
          in Inr (es\<lparr>connection_timeout := Some timeout\<rparr>))"

text \<open>
  \<^verbatim>\<open>is_available\<close>: \<open>connect\<close> says how a handle behaves when a method is called on it.
\<close>

definition is_available ::
  "(Elasticsearch \<Rightarrow> 'e client) \<Rightarrow> SearchEngineSettings \<Rightarrow> config \<Rightarrow> 'e world \<Rightarrow> bool \<times> 'e world"
where
  "is_available connect cls cfg w =
     (case make_connection cls cfg of
        Inl e \<Rightarrow> (False, log_exception e w)
      | Inr conn \<Rightarrow>
          (case invoke (connect conn) Info w of
             (Some e, w') \<Rightarrow> (False, log_exception e w')
           | (None, w') \<Rightarrow> (True, w')))"


section \<open>__init__.py: the index writer with a fixed index name\<close>

definition ELASTICSEARCH_INDEX :: val where
  "ELASTICSEARCH_INDEX = VStr ''ckan''"

text \<open>\<^verbatim>\<open>data_dict.get('id')\<close>: the value, or \<^verbatim>\<open>None\<close> when the key is missing.\<close>

definition dict_get :: "pydict \<Rightarrow> string \<Rightarrow> val" where
  "dict_get d k = (case map_of d k of None \<Rightarrow> VNone | Some v \<Rightarrow> v)"

text \<open>
  \<^verbatim>\<open>SearchIndex.insert_dict\<close> calls \<^verbatim>\<open>es.index(index=..., document=data_dict)\<close>: no id
  is passed.
\<close>

definition SearchIndex_insert_dict ::
  "'e client \<Rightarrow> pydict \<Rightarrow> 'e world \<Rightarrow> (pyexc + unit) \<times> 'e world"
where
  "SearchIndex_insert_dict es data_dict w =
     (case invoke es (Index ELASTICSEARCH_INDEX VNone data_dict) w of
        (Some e, w1) \<Rightarrow>
          (Inl (Raise ElasticsearchIndexError (''Error inserting document: '' @ exc_str e)), w1)
      | (None, w1) \<Rightarrow> (Inr (), w1))"

text \<open>
  \<^verbatim>\<open>SearchIndex.update_dict\<close>: the clause \<^verbatim>\<open>except NotFoundError\<close> comes first and calls
  \<^verbatim>\<open>self.insert_dict\<close>; an exception raised there is outside the \<^verbatim>\<open>try\<close> and leaves
  as \<^verbatim>\<open>insert_dict\<close> raised it.
\<close>

definition SearchIndex_update_dict ::
  "'e client \<Rightarrow> pydict \<Rightarrow> 'e world \<Rightarrow> (pyexc + unit) \<times> 'e world"
where
  "SearchIndex_update_dict es data_dict w =
     (let doc_id = dict_get data_dict ''id'' in
      case invoke es (Update ELASTICSEARCH_INDEX doc_id data_dict) w of
        (Some e, w1) \<Rightarrow>
          if exc_cls e = NotFoundError then SearchIndex_insert_dict es data_dict w1
          else (Inl (Raise ElasticsearchIndexError (''Error updating document: '' @ exc_str e)), w1)
      | (None, w1) \<Rightarrow> (Inr (), w1))"

definition SearchIndex_remove_dict ::
  "'e client \<Rightarrow> pydict \<Rightarrow> 'e world \<Rightarrow> (pyexc + unit) \<times> 'e world"
where
  "SearchIndex_remove_dict es data_dict w =
     (let doc_id = dict_get data_dict ''id'' in
      case invoke es (Delete ELASTICSEARCH_INDEX doc_id) w of
        (Some e, w1) \<Rightarrow>
          (Inl (Raise ElasticsearchIndexError (''Error removing document: '' @ exc_str e)), w1)
      | (None, w1) \<Rightarrow> (Inr (), w1))"

text \<open>\<^verbatim>\<open>NoopSearchIndex\<close> overrides the three methods with \<^verbatim>\<open>pass\<close>.\<close>

definition NoopSearchIndex_insert_dict ::
  "pydict \<Rightarrow> 'e world \<Rightarrow> (pyexc + unit) \<times> 'e world" where
  "NoopSearchIndex_insert_dict data_dict w = (Inr (), w)"

definition NoopSearchIndex_update_dict ::
  "pydict \<Rightarrow> 'e world \<Rightarrow> (pyexc + unit) \<times> 'e world" where
  "NoopSearchIndex_update_dict data_dict w = (Inr (), w)"

definition NoopSearchIndex_remove_dict ::
  "pydict \<Rightarrow> 'e world \<Rightarrow> (pyexc + unit) \<times> 'e world" where
  "NoopSearchIndex_remove_dict data_dict w = (Inr (), w)"

text \<open>
  An instance is its class and the client \<^verbatim>\<open>self.es\<close> that \<^verbatim>\<open>SearchIndex.__init__\<close>
  builds from the fixed host and port. \<^verbatim>\<open>PackageSearchIndex\<close> inherits every method.
\<close>

datatype index_class = SearchIndexC | PackageSearchIndexC | NoopSearchIndexC

record 'e SearchIndexObj =
  obj_class :: index_class
  obj_es :: "'e client"

definition ELASTICSEARCH_HOST :: string where
  "ELASTICSEARCH_HOST = ''localhost''"

definition ELASTICSEARCH_PORT :: int where
  "ELASTICSEARCH_PORT = 9200"

definition SearchIndex_new :: "(Elasticsearch \<Rightarrow> 'e client) \<Rightarrow> index_class \<Rightarrow> 'e SearchIndexObj" where
  "SearchIndex_new connect c =
     \<lparr>obj_class = c,
      obj_es = connect \<lparr>hosts = [VDict [(''host'', VStr ELASTICSEARCH_HOST),
                                           (''port'', VInt ELASTICSEARCH_PORT)]],
                        http_auth = None, connection_timeout = None\<rparr>\<rparr>"

text \<open>Method calls on an instance, resolved by its class.\<close>

definition insert_dict :: "'e SearchIndexObj \<Rightarrow> pydict \<Rightarrow> 'e world \<Rightarrow> (pyexc + unit) \<times> 'e world" where
  "insert_dict self data_dict w =
     (case obj_class self of
        NoopSearchIndexC \<Rightarrow> NoopSearchIndex_insert_dict data_dict w
      | _ \<Rightarrow> SearchIndex_insert_dict (obj_es self) data_dict w)"

definition update_dict :: "'e SearchIndexObj \<Rightarrow> pydict \<Rightarrow> 'e world \<Rightarrow> (pyexc + unit) \<times> 'e world" where
  "update_dict self data_dict w =
     (case obj_class self of
        NoopSearchIndexC \<Rightarrow> NoopSearchIndex_update_dict data_dict w
      | _ \<Rightarrow> SearchIndex_update_dict (obj_es self) data_dict w)"

definition remove_dict :: "'e SearchIndexObj \<Rightarrow> pydict \<Rightarrow> 'e world \<Rightarrow> (pyexc + unit) \<times> 'e world" where
  "remove_dict self data_dict w =
     (case obj_class self of
        NoopSearchIndexC \<Rightarrow> NoopSearchIndex_remove_dict data_dict w
      | _ \<Rightarrow> SearchIndex_remove_dict (obj_es self) data_dict w)"

text \<open>The registry \<^verbatim>\<open>_INDICES\<close> and \<^verbatim>\<open>index_for\<close>.\<close>

definition INDICES :: "(pykey \<times> index_class) list" where
  "INDICES = [(KStr ''package'', PackageSearchIndexC)]"

definition index_for ::
  "(Elasticsearch \<Rightarrow> 'e client) \<Rightarrow> pykey \<Rightarrow> 'e world \<Rightarrow> 'e SearchIndexObj \<times> 'e world"
where
  "index_for connect t w =
     (case map_of INDICES t of
        Some c \<Rightarrow> (SearchIndex_new connect c, w)
      | None \<Rightarrow>
          (SearchIndex_new connect NoopSearchIndexC,
           log_msg WARNING ''Unknown search type: {}'' [LKey t] w))"

text \<open>
  \<^verbatim>\<open>clear_all\<close> reads a module-level name \<^verbatim>\<open>es\<close> that \<^verbatim>\<open>__init__.py\<close> never binds:
  \<open>g_es\<close> is its binding, \<open>None\<close> as the module is written, and then the lookup raises
  NameError inside the \<^verbatim>\<open>try\<close>. Whatever the exception, the handler logs it and
  the function returns.
\<close>

definition clear_all :: "'e client option \<Rightarrow> val \<Rightarrow> 'e world \<Rightarrow> (pyexc + unit) \<times> 'e world" where
  "clear_all g_es index_name w =
     (let failed = (\<lambda>e w'. (Inr (),
            log_msg ERROR ''Error clearing index {}: {}'' [LVal index_name, LVal (VStr (exc_str e))] w'))
      in case g_es of
        None \<Rightarrow> failed (Raise NameError (''name '' @ [CHR 0x27] @ ''es'' @ [CHR 0x27] @ '' is not defined'')) w
      | Some es \<Rightarrow>
          (case invoke es (IndicesDelete index_name [400, 404]) w of
             (Some e, w1) \<Rightarrow> failed e w1
           | (None, w1) \<Rightarrow>
               (case invoke es (IndicesCreate index_name) w1 of
                  (Some e, w2) \<Rightarrow> failed e w2
                | (None, w2) \<Rightarrow>
                    (Inr (), log_msg INFO ''All documents removed from index {}. Index recreated.''
                               [LVal index_name] w2))))"


section \<open>index.py: the index writer with a configured index name\<close>

text \<open>
  The methods below take the client \<^verbatim>\<open>self.es\<close> as it is. The constructor that binds it
  calls a \<^verbatim>\<open>make_connection\<close> imported from \<^verbatim>\<open>ckan.lib.search.common\<close>, a module that is
  not among the sources, and is not modelled.
\<close>

definition index_name :: "config \<Rightarrow> val" where
  "index_name cfg = config_get cfg ''ckan.elasticsearch.index'' (VStr ''ckan'')"

text \<open>\<^verbatim>\<open>pkg_dict['id']\<close> raises KeyError on a missing key; its \<^verbatim>\<open>str\<close> is the quoted key.\<close>

definition dict_item :: "pydict \<Rightarrow> string \<Rightarrow> pyexc + val" where
  "dict_item d k =
     (case map_of d k of
        None \<Rightarrow> Inl (Raise KeyError ([CHR 0x27] @ k @ [CHR 0x27]))
      | Some v \<Rightarrow> Inr v)"

definition index_error :: "pyexc \<Rightarrow> 'e world \<Rightarrow> (pyexc + unit) \<times> 'e world" where
  "index_error e w =
     (Inl (Raise SearchIndexError (''Error indexing package: '' @ exc_str e)), log_exception e w)"

text \<open>
  \<^verbatim>\<open>PackageSearchIndex.index_package\<close>: the arguments of \<^verbatim>\<open>es.index\<close> are evaluated
  inside the \<^verbatim>\<open>try\<close>, so a missing id is a KeyError that the handler wraps before any
  call is made.
\<close>

definition PackageSearchIndex_index_package ::
  "'e client \<Rightarrow> config \<Rightarrow> pydict option \<Rightarrow> bool \<Rightarrow> 'e world \<Rightarrow> (pyexc + unit) \<times> 'e world"
where
  "PackageSearchIndex_index_package es cfg pkg_dict defer_commit w =
     (case pkg_dict of
        None \<Rightarrow> (Inr (), w)
      | Some d \<Rightarrow>
          (case dict_item d ''id'' of
             Inl e \<Rightarrow> index_error e w
           | Inr i \<Rightarrow>
               (case invoke es (Index (index_name cfg) i d) w of
                  (Some e, w1) \<Rightarrow> index_error e w1
                | (None, w1) \<Rightarrow>
                    if \<not> defer_commit then
                      (case invoke es (IndicesRefresh (index_name cfg)) w1 of
                         (Some e, w2) \<Rightarrow> index_error e w2
                       | (None, w2) \<Rightarrow> (Inr (), w2))
                    else (Inr (), w1))))"

definition PackageSearchIndex_update_dict ::
  "'e client \<Rightarrow> config \<Rightarrow> pydict \<Rightarrow> bool \<Rightarrow> 'e world \<Rightarrow> (pyexc + unit) \<times> 'e world"
where
  "PackageSearchIndex_update_dict es cfg pkg_dict defer_commit w =
     PackageSearchIndex_index_package es cfg (Some pkg_dict) defer_commit w"


definition remove_error :: "pyexc \<Rightarrow> 'e world \<Rightarrow> (pyexc + unit) \<times> 'e world" where
  "remove_error e w =
     (Inl (Raise SearchIndexError (''Error removing package: '' @ exc_str e)), log_exception e w)"

text \<open>The two handlers of \<^verbatim>\<open>PackageSearchIndex.remove_dict\<close>, in the source's order.\<close>

definition remove_handler :: "val \<Rightarrow> pyexc \<Rightarrow> 'e world \<Rightarrow> (pyexc + unit) \<times> 'e world" where
  "remove_handler i e w =
     (if exc_cls e = NotFoundError then
        (Inr (), log_msg INFO ''Package {} not found in Elasticsearch index.'' [LVal i] w)
      else remove_error e w)"

text \<open>
  \<^verbatim>\<open>PackageSearchIndex.remove_dict\<close> tests \<^verbatim>\<open>defer_commit\<close>, which is neither a parameter
  nor a name \<^verbatim>\<open>index.py\<close> binds: \<open>g_defer_commit\<close> is its module-level binding, \<open>None\<close>
  as the module is written, and then the test raises NameError inside the \<^verbatim>\<open>try\<close>.
\<close>

definition PackageSearchIndex_remove_dict ::
  "'e client \<Rightarrow> config \<Rightarrow> val option \<Rightarrow> pydict \<Rightarrow> 'e world \<Rightarrow> (pyexc + unit) \<times> 'e world"
where
  "PackageSearchIndex_remove_dict es cfg g_defer_commit pkg_dict w =
     (case dict_item pkg_dict ''id'' of
        Inl e \<Rightarrow> remove_error e w
      | Inr i \<Rightarrow>
          (case invoke es (Delete (index_name cfg) i) w of
             (Some e, w1) \<Rightarrow> remove_handler i e w1
           | (None, w1) \<Rightarrow>
               (case g_defer_commit of
                  None \<Rightarrow>
                    remove_error
                      (Raise NameError (''name '' @ [CHR 0x27] @ ''defer_commit'' @ [CHR 0x27]
                                         @ '' is not defined'')) w1
                | Some dc \<Rightarrow>
                    if \<not> truthy dc then
                      (case invoke es (IndicesRefresh (index_name cfg)) w1 of
                         (Some e, w2) \<Rightarrow> remove_handler i e w2
                       | (None, w2) \<Rightarrow> (Inr (), w2))
                    else (Inr (), w1))))"

text \<open>\<^verbatim>\<open>SearchIndex.clear\<close> of \<^verbatim>\<open>index.py\<close> has no handler.\<close>

definition SearchIndex_clear :: "'e client \<Rightarrow> config \<Rightarrow> 'e world \<Rightarrow> (pyexc + unit) \<times> 'e world" where
  "SearchIndex_clear es cfg w =
     (case invoke es (IndicesDelete (index_name cfg) [400, 404]) w of
        (Some e, w1) \<Rightarrow> (Inl e, w1)
      | (None, w1) \<Rightarrow>
          (case invoke es (IndicesCreate (index_name cfg)) w1 of
             (Some e, w2) \<Rightarrow> (Inl e, w2)
           | (None, w2) \<Rightarrow> (Inr (), w2)))"



section \<open>query.py: the query runner\<close>

text \<open>
  \<^verbatim>\<open>query.py\<close> defines its own \<^verbatim>\<open>make_connection\<close>, after importing one: the handle is
  built from the configured URL and the settings are not read.
\<close>

definition query_make_connection :: "config \<Rightarrow> pyexc + Elasticsearch" where
  "query_make_connection cfg =
     Inr \<lparr>hosts = [config_get cfg ''ckan.elasticsearch.url'' (VStr ''http://localhost:9200'')],
          http_auth = None, connection_timeout = None\<rparr>"

text \<open>
  The search object of the query library, as the calls made on it leave it: the term
  filters added, the sort keys, the extra body entries and the query clause.
\<close>

datatype clause = MatchAll | MultiMatch val "string list"

record Search =
  s_using :: Elasticsearch
  s_index :: val
  s_filters :: "pydict list"
  s_sort :: "val list"
  s_extra :: pydict
  s_query :: "clause option"

definition Search_new :: "Elasticsearch \<Rightarrow> val \<Rightarrow> Search" where
  "Search_new es ix =
     \<lparr>s_using = es, s_index = ix, s_filters = [], s_sort = [], s_extra = [], s_query = None\<rparr>"

text \<open>\<^verbatim>\<open>d[k] = v\<close> on a dictionary: the key keeps its place when it is there already.\<close>

fun dict_set :: "pydict \<Rightarrow> string \<Rightarrow> val \<Rightarrow> pydict" where
  "dict_set [] k v = [(k, v)]"
| "dict_set ((k', v') # d) k v = (if k' = k then (k, v) # d else (k', v') # dict_set d k v)"

text \<open>
  The clause: \<^verbatim>\<open>if 'q' in query and query['q']\<close> chooses the weighted multi-field match
  on the term, else match-all.
\<close>

definition MATCH_FIELDS :: "string list" where
  "MATCH_FIELDS = [''name^4'', ''title^4'', ''tags^2'', ''groups^2'', ''text'']"

definition build_q :: "pydict \<Rightarrow> clause" where
  "build_q query =
     (case map_of query ''q'' of
        Some v \<Rightarrow> if truthy v then MultiMatch v MATCH_FIELDS else MatchAll
      | None \<Rightarrow> MatchAll)"

text \<open>
  \<^verbatim>\<open>for fq in query['fq']: s = s.filter('term', **fq)\<close>. Each element must be a mapping
  for \<^verbatim>\<open>**\<close>; iterating a string or a dictionary yields strings, which are not; a
  value that is not iterable raises at once. The text of these TypeErrors is a
  description, not the interpreter's wording.
\<close>

fun add_filters :: "val list \<Rightarrow> Search \<Rightarrow> pyexc + Search" where
  "add_filters [] s = Inr s"
| "add_filters (VDict fq # rest) s = add_filters rest (s\<lparr>s_filters := s_filters s @ [fq]\<rparr>)"
| "add_filters (v # rest) s = Inl (Raise TypeError ''argument after ** must be a mapping'')"

fun apply_fq :: "val \<Rightarrow> Search \<Rightarrow> pyexc + Search" where
  "apply_fq (VList xs) s = add_filters xs s"
| "apply_fq (VStr cs) s =
     (if cs = [] then Inr s else Inl (Raise TypeError ''argument after ** must be a mapping''))"
| "apply_fq (VDict d) s =
     (if d = [] then Inr s else Inl (Raise TypeError ''argument after ** must be a mapping''))"
| "apply_fq v s = Inl (Raise TypeError ''object is not iterable'')"

text \<open>
  The four steps on the search object (filters, sort, offset, limit), then the part of
  \<^verbatim>\<open>PackageSearchQuery.run\<close> before \<^verbatim>\<open>execute()\<close>: the search object that
  is executed, \<^verbatim>\<open>s.query(q)\<close>, and the search \<^verbatim>\<open>s\<close> without the clause, which is what
  \<^verbatim>\<open>_process_facets\<close> is given.
\<close>

definition apply_filters :: "pydict \<Rightarrow> Search \<Rightarrow> pyexc + Search" where
  "apply_filters query s =
     (case map_of query ''fq'' of None \<Rightarrow> Inr s | Some fqs \<Rightarrow> apply_fq fqs s)"

definition apply_sort :: "pydict \<Rightarrow> Search \<Rightarrow> Search" where
  "apply_sort query s =
     (case map_of query ''sort'' of None \<Rightarrow> s | Some k \<Rightarrow> s\<lparr>s_sort := [k]\<rparr>)"

definition apply_start :: "pydict \<Rightarrow> Search \<Rightarrow> Search" where
  "apply_start query s =
     (case map_of query ''start'' of
        None \<Rightarrow> s
      | Some v \<Rightarrow> s\<lparr>s_extra := dict_set (s_extra s) ''from'' v\<rparr>)"

definition apply_rows :: "pydict \<Rightarrow> Search \<Rightarrow> Search" where
  "apply_rows query s =
     (case map_of query ''rows'' of
        None \<Rightarrow> s
      | Some v \<Rightarrow> s\<lparr>s_extra := dict_set (s_extra s) ''size'' v\<rparr>)"

definition run_search :: "config \<Rightarrow> pydict \<Rightarrow> pyexc + (Search \<times> Search)" where
  "run_search cfg query =
     (case query_make_connection cfg of
        Inl e \<Rightarrow> Inl e
      | Inr es \<Rightarrow>
          (let q = build_q query in
           case apply_filters query (Search_new es (index_name cfg)) of
             Inl e \<Rightarrow> Inl e
           | Inr s1 \<Rightarrow>
               (let s = apply_rows query (apply_start query (apply_sort query s1))
                in Inr (s\<lparr>s_query := Some q\<rparr>, s))))"

text \<open>The engine's answer: the hits, each with its fields, and the total.\<close>

record hit =
  hit_meta :: pydict
  hit_fields :: pydict

definition to_dict :: "hit \<Rightarrow> pydict" where
  "to_dict h = hit_fields h"

record response =
  hits :: "hit list"
  total_value :: val

text \<open>The attributes \<^verbatim>\<open>SearchQuery.__init__\<close> sets.\<close>

record SearchQuery =
  results :: "pydict list"
  count :: val
  facets :: pydict

definition SearchQuery_new :: SearchQuery where
  "SearchQuery_new = \<lparr>results = [], count = VInt 0, facets = []\<rparr>"

definition process_facets :: "Search \<Rightarrow> response \<Rightarrow> pydict" where
  "process_facets search response = []"

text \<open>
  \<^verbatim>\<open>PackageSearchQuery.run\<close>: \<open>execute\<close> is the engine's answer to a search, an exception
  or a response. The attributes change only after \<^verbatim>\<open>execute()\<close> has returned.
\<close>

definition PackageSearchQuery_run ::
  "(Search \<Rightarrow> pyexc + response) \<Rightarrow> config \<Rightarrow> pydict \<Rightarrow> SearchQuery \<Rightarrow> (pyexc + pydict) \<times> SearchQuery"
where
  "PackageSearchQuery_run execute cfg query self =
     (case run_search cfg query of
        Inl e \<Rightarrow> (Inl e, self)
      | Inr (sq, s) \<Rightarrow>
          (case execute sq of
             Inl e \<Rightarrow> (Inl e, self)
           | Inr response \<Rightarrow>
               let self1 = self\<lparr>results := map to_dict (hits response),
                                count := total_value response\<rparr>;
                   self2 = (case map_of query ''facet'' of
                              Some f \<Rightarrow> if truthy f then self1\<lparr>facets := process_facets s response\<rparr>
                                         else self1
                            | None \<Rightarrow> self1)
               in (Inr [(''results'', VList (map VDict (results self2))),
                        (''count'', count self2),
                        (''facets'', VDict (facets self2))], self2)))"


section \<open>An engine to run the writer against\<close>

text \<open>
  The engine is not part of the adapter. This is the behaviour of its document API that
  the adapter relies on: documents are stored per index under an id; indexing without
  an id stores the document under an id the engine generates; updating or deleting an
  id that is not there raises NotFoundError, and with no id the client refuses the
  call. Indices are not tracked as objects: deleting one drops its documents.
\<close>

datatype es_key = Given val | Auto nat

record es_state =
  docs :: "(val \<times> es_key) \<rightharpoonup> pydict"
  next_auto :: nat

definition es_empty :: es_state where
  "es_empty = \<lparr>docs = Map.empty, next_auto = 0\<rparr>"

definition not_found :: pyexc where
  "not_found = Raise NotFoundError ''NotFoundError(404, not_found)''"

definition empty_id :: pyexc where
  "empty_id = Raise (OtherException ''ValueError'') ''Empty value passed for parameter id''"

text \<open>A partial update overwrites the fields it names and keeps the others.\<close>

definition merge_doc :: "pydict \<Rightarrow> pydict \<Rightarrow> pydict" where
  "merge_doc old new = fold (\<lambda>(k, v) d. dict_set d k v) new old"

fun es_model :: "es_state client" where
  "es_model Info s = (None, s)"
| "es_model (Index ix i d) s =
     (if i = VNone then
        (None, s\<lparr>docs := (docs s)((ix, Auto (next_auto s)) \<mapsto> d),
                  next_auto := Suc (next_auto s)\<rparr>)
      else (None, s\<lparr>docs := (docs s)((ix, Given i) \<mapsto> d)\<rparr>))"
| "es_model (Update ix i d) s =
     (if i = VNone then (Some empty_id, s)
      else case docs s (ix, Given i) of
             None \<Rightarrow> (Some not_found, s)
           | Some old \<Rightarrow> (None, s\<lparr>docs := (docs s)((ix, Given i) \<mapsto> merge_doc old d)\<rparr>))"
| "es_model (Delete ix i) s =
     (if i = VNone then (Some empty_id, s)
      else case docs s (ix, Given i) of
             None \<Rightarrow> (Some not_found, s)
           | Some old \<Rightarrow> (None, s\<lparr>docs := (docs s)((ix, Given i) := None)\<rparr>))"
| "es_model (IndicesRefresh ix) s = (None, s)"
| "es_model (IndicesDelete ix ign) s =
     (None, s\<lparr>docs := (\<lambda>k. if fst k = ix then None else docs s k)\<rparr>)"
| "es_model (IndicesCreate ix) s = (None, s)"

text \<open>
  An engine that follows a script: its state is the list of outcomes still to come, one
  for each call, and it succeeds once the script is used up.
\<close>

fun scripted :: "(pyexc option list) client" where
  "scripted c [] = (None, [])"
| "scripted c (r # rs) = (r, rs)"






text \<open>A world with nothing in the trace and the log.\<close>

definition world0 :: "'e \<Rightarrow> 'e world" where
  "world0 s = \<lparr>engine = s, calls = [], logs = []\<rparr>"



text \<open>Concrete inputs: a document, an engine failure, a search answer with one hit.\<close>

definition doc_a :: pydict where
  "doc_a = [(''id'', VStr ''a''), (''title'', VStr ''T'')]"

definition refused :: pyexc where
  "refused = Raise (OtherException ''ConnectionError'') ''connection refused''"

definition one_hit :: "Search \<Rightarrow> pyexc + response" where
  "one_hit s = Inr \<lparr>hits = [\<lparr>hit_meta = [(''_id'', VStr ''a'')], hit_fields = doc_a\<rparr>],
                    total_value = VInt 1\<rparr>"

definition local_es :: Elasticsearch where
  "local_es = \<lparr>hosts = [VStr ''http://localhost:9200''], http_auth = None,
               connection_timeout = None\<rparr>"


section \<open>Properties of the settings\<close>

text \<open>
  C4: after \<^verbatim>\<open>init\<close> with the empty string as URL, whatever the credentials and the
  state before, \<^verbatim>\<open>get\<close> raises the error "Elasticsearch URL is blank"; the state is
  initialised and holds the empty URL, so this stays so until another \<^verbatim>\<open>init\<close>.
\<close>

theorem init_blank_url_get_raises:
  "SearchEngineSettings_get (SearchEngineSettings_init (Some []) user password cls)
     = Inl (Raise SearchIndexError ''Elasticsearch URL is blank'')"
  by (simp add: SearchEngineSettings_get_def SearchEngineSettings_init_def)

text \<open>
  C10: \<^verbatim>\<open>init\<close> with \<^verbatim>\<open>url=None\<close> leaves the stored user and password as they were,
  whatever \<open>user\<close> and \<open>password\<close> are passed, and sets the URL to the default; on the
  fresh settings \<^verbatim>\<open>get\<close> then returns the default URL with no user and no password.
\<close>

theorem init_None_ignores_credentials:
  "st_user (SearchEngineSettings_init None user password cls) = st_user cls
   \<and> st_password (SearchEngineSettings_init None user password cls) = st_password cls
   \<and> st_url (SearchEngineSettings_init None user password cls) = Some DEFAULT_ELASTICSEARCH_URL
   \<and> st_is_initialised (SearchEngineSettings_init None user password cls)
   \<and> SearchEngineSettings_get (SearchEngineSettings_init None user password SearchEngineSettings_fresh)
       = Inr (DEFAULT_ELASTICSEARCH_URL, None, None)"
  by (simp add: SearchEngineSettings_get_def SearchEngineSettings_init_def
      SearchEngineSettings_fresh_def DEFAULT_ELASTICSEARCH_URL_def)

text \<open>
  C3, as the code has it: while the initialised flag is unset, as it is until the first
  \<^verbatim>\<open>init\<close>, \<^verbatim>\<open>get\<close> raises "Elasticsearch URL not initialised"; \<^verbatim>\<open>make_connection\<close> of
  \<^verbatim>\<open>common.py\<close> raises the same error and returns no handle; \<^verbatim>\<open>is_available\<close>, which
  opens its connection through it and catches the error, answers False and makes no
  call to the engine. The \<^verbatim>\<open>make_connection\<close> that \<^verbatim>\<open>query.py\<close> defines for its runner
  does not read the settings: it returns a handle for the configured URL.
\<close>

theorem uninitialised_settings_fail:
  assumes "\<not> st_is_initialised cls"
  shows "SearchEngineSettings_get cls
           = Inl (Raise SearchIndexError ''Elasticsearch URL not initialised'')
       \<and> make_connection cls cfg
           = Inl (Raise SearchIndexError ''Elasticsearch URL not initialised'')
       \<and> fst (is_available connect cls cfg w) = False
       \<and> calls (snd (is_available connect cls cfg w)) = calls w
       \<and> engine (snd (is_available connect cls cfg w)) = engine w
       \<and> query_make_connection cfg
           = Inr \<lparr>hosts = [config_get cfg ''ckan.elasticsearch.url''
                              (VStr ''http://localhost:9200'')],
                  http_auth = None, connection_timeout = None\<rparr>"
  using assms
  by (simp add: SearchEngineSettings_get_def make_connection_def is_available_def
      query_make_connection_def log_exception_def log_msg_def)

theorem uninitialised_settings_fail_witness:
  "\<not> st_is_initialised SearchEngineSettings_fresh
   \<and> SearchEngineSettings_get SearchEngineSettings_fresh
       = Inl (Raise SearchIndexError ''Elasticsearch URL not initialised'')
   \<and> make_connection SearchEngineSettings_fresh Map.empty
       = Inl (Raise SearchIndexError ''Elasticsearch URL not initialised'')
   \<and> fst (is_available (\<lambda>conn c s. (None, s)) SearchEngineSettings_fresh Map.empty
            \<lparr>engine = (0::nat), calls = [], logs = []\<rparr>) = False
   \<and> calls (snd (is_available (\<lambda>conn c s. (None, s)) SearchEngineSettings_fresh Map.empty
            \<lparr>engine = (0::nat), calls = [], logs = []\<rparr>)) = []
   \<and> query_make_connection Map.empty = Inr local_es"
proof -
  have h: "\<not> st_is_initialised SearchEngineSettings_fresh"
    by (simp add: SearchEngineSettings_fresh_def)
  show ?thesis
    using h uninitialised_settings_fail [OF h, of Map.empty "\<lambda>conn c s. (None, s)"
        "\<lparr>engine = (0::nat), calls = [], logs = []\<rparr>"]
    by (simp add: config_get_def local_es_def)
qed

text \<open>
  C3 as stated fails: before any \<^verbatim>\<open>init\<close>, where \<^verbatim>\<open>get\<close> raises, the query runner opens
  its connection with the \<^verbatim>\<open>make_connection\<close> of \<^verbatim>\<open>query.py\<close>, sends the search to the
  engine and returns the engine's hit.
\<close>

theorem query_run_succeeds_uninitialised:
  "SearchEngineSettings_get SearchEngineSettings_fresh
     = Inl (Raise SearchIndexError ''Elasticsearch URL not initialised'')
   \<and> query_make_connection Map.empty = Inr local_es
   \<and> fst (PackageSearchQuery_run one_hit Map.empty [] SearchQuery_new)
       = Inr [(''results'', VList [VDict doc_a]), (''count'', VInt 1), (''facets'', VDict [])]"
  by (simp add: SearchEngineSettings_get_def SearchEngineSettings_fresh_def
      PackageSearchQuery_run_def run_search_def query_make_connection_def
      config_get_def index_name_def apply_filters_def apply_sort_def apply_start_def
      apply_rows_def build_q_def Let_def one_hit_def to_dict_def local_es_def
      SearchQuery_new_def)


section \<open>The registry\<close>

text \<open>
  C9: for every key other than the string 'package', \<^verbatim>\<open>index_for\<close> returns an instance
  of \<^verbatim>\<open>NoopSearchIndex\<close> and makes no call to the engine; on that instance
  \<^verbatim>\<open>insert_dict\<close>, \<^verbatim>\<open>update_dict\<close> and \<^verbatim>\<open>remove_dict\<close> return normally and leave the
  world (engine, trace of calls, log) as it was, for every dictionary.
\<close>
theorem index_for_unregistered_is_noop:
  assumes "t \<noteq> KStr ''package''"
  shows "obj_class (fst (index_for connect t w)) = NoopSearchIndexC
       \<and> calls (snd (index_for connect t w)) = calls w
       \<and> engine (snd (index_for connect t w)) = engine w
       \<and> insert_dict (fst (index_for connect t w)) d w' = (Inr (), w')
       \<and> update_dict (fst (index_for connect t w)) d w' = (Inr (), w')
       \<and> remove_dict (fst (index_for connect t w)) d w' = (Inr (), w')"
  using assms
  by (simp add: index_for_def INDICES_def SearchIndex_new_def log_msg_def insert_dict_def
      update_dict_def remove_dict_def NoopSearchIndex_insert_dict_def
      NoopSearchIndex_update_dict_def NoopSearchIndex_remove_dict_def)

theorem index_for_unregistered_is_noop_witness:
  "KClass ''Package'' \<noteq> KStr ''package''
   \<and> obj_class (fst (index_for (\<lambda>h. es_model) (KClass ''Package'') (world0 es_empty))) = NoopSearchIndexC
   \<and> calls (snd (index_for (\<lambda>h. es_model) (KClass ''Package'') (world0 es_empty))) = []
   \<and> remove_dict (fst (index_for (\<lambda>h. es_model) (KClass ''Package'') (world0 es_empty)))
        [(''id'', VStr ''a'')] (world0 es_empty) = (Inr (), world0 es_empty)"
proof -
  have h: "KClass ''Package'' \<noteq> KStr ''package''" by simp
  show ?thesis
    using h index_for_unregistered_is_noop [OF h, of "\<lambda>h. es_model" "world0 es_empty"
        "[(''id'', VStr ''a'')]" "world0 es_empty"]
    by (simp add: world0_def)
qed


section \<open>Documents that are not in the index\<close>

text \<open>
  \<^verbatim>\<open>PackageSearchIndex.remove_dict\<close> of \<^verbatim>\<open>index.py\<close>: when the delete call raises
  NotFoundError the method logs at level INFO and returns.
\<close>

lemma PackageSearchIndex_remove_dict_not_found:
  assumes "map_of pkg_dict ''id'' = Some i"
      and "fst (es (Delete (index_name cfg) i) (engine w)) = Some e"
      and "exc_cls e = NotFoundError"
  shows "fst (PackageSearchIndex_remove_dict es cfg g pkg_dict w) = Inr ()"
    and "logs (snd (PackageSearchIndex_remove_dict es cfg g pkg_dict w))
           = logs w @ [(INFO, ''Package {} not found in Elasticsearch index.'', [LVal i])]"
  using assms
  by (auto simp: PackageSearchIndex_remove_dict_def dict_item_def invoke_def remove_handler_def
      log_msg_def split: prod.splits option.splits)

text \<open>
  C1: \<^verbatim>\<open>remove_dict\<close> with an id that is not in the index. \<^verbatim>\<open>SearchIndex.remove_dict\<close> of
  \<^verbatim>\<open>__init__.py\<close> has the single clause \<^verbatim>\<open>except Exception\<close>: on the empty index the
  engine's NotFoundError for id 'a' leaves the method as an ElasticsearchIndexError,
  also through an instance of \<^verbatim>\<open>PackageSearchIndex\<close>, which inherits the method.
\<close>

theorem remove_dict_absent_id_raises:
  "fst (es_model (Delete ELASTICSEARCH_INDEX (VStr ''a'')) es_empty) = Some not_found
   \<and> fst (SearchIndex_remove_dict es_model [(''id'', VStr ''a'')] (world0 es_empty))
       = Inl (Raise ElasticsearchIndexError
               (''Error removing document: '' @ exc_str not_found))
   \<and> fst (remove_dict (SearchIndex_new (\<lambda>h. es_model) PackageSearchIndexC)
            [(''id'', VStr ''a'')] (world0 es_empty))
       = Inl (Raise ElasticsearchIndexError
               (''Error removing document: '' @ exc_str not_found))"
  by (simp add: SearchIndex_remove_dict_def remove_dict_def SearchIndex_new_def invoke_def
      Let_def dict_get_def world0_def es_empty_def ELASTICSEARCH_INDEX_def not_found_def)

text \<open>
  \<^verbatim>\<open>PackageSearchIndex.update_dict\<close> of \<^verbatim>\<open>index.py\<close> passes the id to the index call: the
  document is stored under its id, whether or not one was there, and nothing is raised.
\<close>

lemma PackageSearchIndex_update_dict_absent_inserts:
  assumes "map_of pkg_dict ''id'' = Some i" and "i \<noteq> VNone"
  shows "fst (PackageSearchIndex_update_dict es_model cfg pkg_dict dc w) = Inr ()"
    and "docs (engine (snd (PackageSearchIndex_update_dict es_model cfg pkg_dict dc w)))
           = (docs (engine w))((index_name cfg, Given i) \<mapsto> pkg_dict)"
  using assms
  by (auto simp: PackageSearchIndex_update_dict_def PackageSearchIndex_index_package_def
      dict_item_def invoke_def)

text \<open>
  C2: \<^verbatim>\<open>update_dict\<close> with an id that is not in the index. \<^verbatim>\<open>SearchIndex.update_dict\<close> of
  \<^verbatim>\<open>__init__.py\<close> falls back to \<^verbatim>\<open>insert_dict\<close>, whose index call carries no id: on the
  empty index nothing is raised, the calls are an update and an index without id, and
  the document ends under an id the engine generated while its own id 'a' holds nothing.
\<close>

theorem update_dict_absent_id_not_keyed:
  "fst (SearchIndex_update_dict es_model [(''id'', VStr ''a''), (''title'', VStr ''T'')]
          (world0 es_empty)) = Inr ()
   \<and> calls (snd (SearchIndex_update_dict es_model [(''id'', VStr ''a''), (''title'', VStr ''T'')]
          (world0 es_empty)))
       = [Update ELASTICSEARCH_INDEX (VStr ''a'') [(''id'', VStr ''a''), (''title'', VStr ''T'')],
          Index ELASTICSEARCH_INDEX VNone [(''id'', VStr ''a''), (''title'', VStr ''T'')]]
   \<and> docs (engine (snd (SearchIndex_update_dict es_model
          [(''id'', VStr ''a''), (''title'', VStr ''T'')] (world0 es_empty))))
        (ELASTICSEARCH_INDEX, Given (VStr ''a'')) = None
   \<and> docs (engine (snd (SearchIndex_update_dict es_model
          [(''id'', VStr ''a''), (''title'', VStr ''T'')] (world0 es_empty))))
        (ELASTICSEARCH_INDEX, Auto 0) = Some [(''id'', VStr ''a''), (''title'', VStr ''T'')]"
  by (simp add: SearchIndex_update_dict_def SearchIndex_insert_dict_def invoke_def Let_def
      dict_get_def world0_def es_empty_def ELASTICSEARCH_INDEX_def not_found_def)


section \<open>Exceptions of the engine\<close>

lemma SearchIndex_insert_dict_wraps:
  "fst (es (Index ELASTICSEARCH_INDEX VNone d) (engine w)) = Some e \<Longrightarrow>
   fst (SearchIndex_insert_dict es d w)
     = Inl (Raise ElasticsearchIndexError (''Error inserting document: '' @ exc_str e))"
  by (auto simp: SearchIndex_insert_dict_def invoke_def split: prod.splits option.splits)

lemma SearchIndex_update_dict_wraps:
  "fst (es (Update ELASTICSEARCH_INDEX (dict_get d ''id'') d) (engine w)) = Some e \<Longrightarrow>
   exc_cls e \<noteq> NotFoundError \<Longrightarrow>
   fst (SearchIndex_update_dict es d w)
     = Inl (Raise ElasticsearchIndexError (''Error updating document: '' @ exc_str e))"
  by (auto simp: SearchIndex_update_dict_def invoke_def Let_def split: prod.splits option.splits)

lemma SearchIndex_update_dict_falls_back:
  "fst (es (Update ELASTICSEARCH_INDEX (dict_get d ''id'') d) (engine w)) = Some e \<Longrightarrow>
   exc_cls e = NotFoundError \<Longrightarrow>
   SearchIndex_update_dict es d w
     = SearchIndex_insert_dict es d
         (snd (invoke es (Update ELASTICSEARCH_INDEX (dict_get d ''id'') d) w))"
  by (auto simp: SearchIndex_update_dict_def invoke_def Let_def split: prod.splits option.splits)

lemma SearchIndex_remove_dict_wraps:
  "fst (es (Delete ELASTICSEARCH_INDEX (dict_get d ''id'')) (engine w)) = Some e \<Longrightarrow>
   exc_cls e \<noteq> NotFoundError \<Longrightarrow>
   fst (SearchIndex_remove_dict es d w)
     = Inl (Raise ElasticsearchIndexError (''Error removing document: '' @ exc_str e))"
  by (auto simp: SearchIndex_remove_dict_def invoke_def Let_def split: prod.splits option.splits)

lemma index_package_wraps_index:
  "map_of d ''id'' = Some i \<Longrightarrow>
   fst (es (Index (index_name cfg) i d) (engine w)) = Some e \<Longrightarrow>
   fst (PackageSearchIndex_update_dict es cfg d dc w)
     = Inl (Raise SearchIndexError (''Error indexing package: '' @ exc_str e))"
  by (auto simp: PackageSearchIndex_update_dict_def PackageSearchIndex_index_package_def
      dict_item_def invoke_def index_error_def split: prod.splits option.splits)

lemma index_package_wraps_refresh:
  "map_of d ''id'' = Some i \<Longrightarrow>
   es (Index (index_name cfg) i d) (engine w) = (None, s1) \<Longrightarrow>
   fst (es (IndicesRefresh (index_name cfg)) s1) = Some e \<Longrightarrow>
   fst (PackageSearchIndex_update_dict es cfg d False w)
     = Inl (Raise SearchIndexError (''Error indexing package: '' @ exc_str e))"
  by (auto simp: PackageSearchIndex_update_dict_def PackageSearchIndex_index_package_def
      dict_item_def invoke_def index_error_def split: prod.splits option.splits)

lemma PackageSearchIndex_remove_dict_wraps:
  "map_of d ''id'' = Some i \<Longrightarrow>
   fst (es (Delete (index_name cfg) i) (engine w)) = Some e \<Longrightarrow>
   exc_cls e \<noteq> NotFoundError \<Longrightarrow>
   fst (PackageSearchIndex_remove_dict es cfg g d w)
     = Inl (Raise SearchIndexError (''Error removing package: '' @ exc_str e))"
  by (auto simp: PackageSearchIndex_remove_dict_def dict_item_def invoke_def remove_handler_def
      remove_error_def split: prod.splits option.splits)

lemma PackageSearchIndex_remove_dict_benign:
  "map_of d ''id'' = Some i \<Longrightarrow>
   fst (es (Delete (index_name cfg) i) (engine w)) = Some e \<Longrightarrow>
   exc_cls e = NotFoundError \<Longrightarrow>
   fst (PackageSearchIndex_remove_dict es cfg g d w) = Inr ()"
  by (auto simp: PackageSearchIndex_remove_dict_def dict_item_def invoke_def remove_handler_def
      split: prod.splits option.splits)

lemma clear_all_returns: "fst (clear_all g_es ix w) = Inr ()"
  by (auto simp: clear_all_def Let_def split: prod.splits option.splits)

lemma clear_all_unbound_no_call: "calls (snd (clear_all None ix w)) = calls w"
  by (simp add: clear_all_def Let_def log_msg_def)

lemma SearchIndex_clear_propagates:
  "fst (es (IndicesDelete (index_name cfg) [400, 404]) (engine w)) = Some e \<Longrightarrow>
   fst (SearchIndex_clear es cfg w) = Inl e"
  by (auto simp: SearchIndex_clear_def invoke_def split: prod.splits option.splits)

lemma SearchIndex_clear_propagates_create:
  "es (IndicesDelete (index_name cfg) [400, 404]) (engine w) = (None, s2) \<Longrightarrow>
   fst (es (IndicesCreate (index_name cfg)) s2) = Some e \<Longrightarrow>
   fst (SearchIndex_clear es cfg w) = Inl e"
  by (auto simp: SearchIndex_clear_def invoke_def split: prod.splits option.splits)

text \<open>
  C6, as the code has it. Insert wraps every exception of its call; update and delete
  wrap every exception of their call other than NotFoundError; \<^verbatim>\<open>index.py\<close>'s insert and
  update wrap every exception of the index call and of the refresh call. Wrapped means:
  it leaves as the module's indexing error, ElasticsearchIndexError in \<^verbatim>\<open>__init__.py\<close> and
  SearchIndexError in \<^verbatim>\<open>index.py\<close>, whose message is the operation's prefix followed by
  the original message. NotFoundError makes \<^verbatim>\<open>__init__.py\<close>'s \<^verbatim>\<open>update_dict\<close> continue as
  \<^verbatim>\<open>insert_dict\<close> and \<^verbatim>\<open>index.py\<close>'s \<^verbatim>\<open>remove_dict\<close> return normally. Clearing does not
  wrap: \<^verbatim>\<open>clear_all\<close> never raises, and as the module is written, with \<^verbatim>\<open>es\<close> unbound, it
  makes no call; \<^verbatim>\<open>SearchIndex.clear\<close> of \<^verbatim>\<open>index.py\<close> has no handler and the exception of
  either of its calls leaves as the engine raised it.
\<close>

theorem engine_exceptions_wrapped_except_not_found:
  "(fst (es (Index ELASTICSEARCH_INDEX VNone d) (engine w)) = Some e \<longrightarrow>
      fst (SearchIndex_insert_dict es d w)
        = Inl (Raise ElasticsearchIndexError (''Error inserting document: '' @ exc_str e)))
   \<and> (fst (es (Update ELASTICSEARCH_INDEX (dict_get d ''id'') d) (engine w)) = Some e
        \<and> exc_cls e \<noteq> NotFoundError \<longrightarrow>
      fst (SearchIndex_update_dict es d w)
        = Inl (Raise ElasticsearchIndexError (''Error updating document: '' @ exc_str e)))
   \<and> (fst (es (Update ELASTICSEARCH_INDEX (dict_get d ''id'') d) (engine w)) = Some e
        \<and> exc_cls e = NotFoundError \<longrightarrow>
      SearchIndex_update_dict es d w
        = SearchIndex_insert_dict es d
            (snd (invoke es (Update ELASTICSEARCH_INDEX (dict_get d ''id'') d) w)))
   \<and> (fst (es (Delete ELASTICSEARCH_INDEX (dict_get d ''id'')) (engine w)) = Some e
        \<and> exc_cls e \<noteq> NotFoundError \<longrightarrow>
      fst (SearchIndex_remove_dict es d w)
        = Inl (Raise ElasticsearchIndexError (''Error removing document: '' @ exc_str e)))
   \<and> (map_of d ''id'' = Some i
        \<and> fst (es (Index (index_name cfg) i d) (engine w)) = Some e \<longrightarrow>
      fst (PackageSearchIndex_update_dict es cfg d dc w)
        = Inl (Raise SearchIndexError (''Error indexing package: '' @ exc_str e)))
   \<and> (map_of d ''id'' = Some i
        \<and> es (Index (index_name cfg) i d) (engine w) = (None, s1)
        \<and> fst (es (IndicesRefresh (index_name cfg)) s1) = Some e \<longrightarrow>
      fst (PackageSearchIndex_update_dict es cfg d False w)
        = Inl (Raise SearchIndexError (''Error indexing package: '' @ exc_str e)))
   \<and> (map_of d ''id'' = Some i
        \<and> fst (es (Delete (index_name cfg) i) (engine w)) = Some e
        \<and> exc_cls e \<noteq> NotFoundError \<longrightarrow>
      fst (PackageSearchIndex_remove_dict es cfg g d w)
        = Inl (Raise SearchIndexError (''Error removing package: '' @ exc_str e)))
   \<and> (map_of d ''id'' = Some i
        \<and> fst (es (Delete (index_name cfg) i) (engine w)) = Some e
        \<and> exc_cls e = NotFoundError \<longrightarrow>
      fst (PackageSearchIndex_remove_dict es cfg g d w) = Inr ())
   \<and> fst (clear_all g_es ix w) = Inr ()
   \<and> calls (snd (clear_all None ix w)) = calls w
   \<and> (fst (es (IndicesDelete (index_name cfg) [400, 404]) (engine w)) = Some e \<longrightarrow>
      fst (SearchIndex_clear es cfg w) = Inl e)
   \<and> (es (IndicesDelete (index_name cfg) [400, 404]) (engine w) = (None, s2)
        \<and> fst (es (IndicesCreate (index_name cfg)) s2) = Some e \<longrightarrow>
      fst (SearchIndex_clear es cfg w) = Inl e)"
  by (simp add: SearchIndex_insert_dict_wraps SearchIndex_update_dict_wraps
      SearchIndex_update_dict_falls_back SearchIndex_remove_dict_wraps
      index_package_wraps_index index_package_wraps_refresh
      PackageSearchIndex_remove_dict_wraps PackageSearchIndex_remove_dict_benign
      clear_all_returns clear_all_unbound_no_call SearchIndex_clear_propagates
      SearchIndex_clear_propagates_create)

text \<open>
  The statement above on scripted engines: one that refuses the first call, one that
  refuses the second call (the refresh, the index creation), one that answers
  NotFoundError and then refuses the insert.
\<close>

theorem engine_exceptions_wrapped_except_not_found_witness:
  "fst (SearchIndex_insert_dict scripted doc_a (world0 [Some refused]))
     = Inl (Raise ElasticsearchIndexError ''Error inserting document: connection refused'')
   \<and> fst (SearchIndex_update_dict scripted doc_a (world0 [Some refused]))
     = Inl (Raise ElasticsearchIndexError ''Error updating document: connection refused'')
   \<and> fst (SearchIndex_remove_dict scripted doc_a (world0 [Some refused]))
     = Inl (Raise ElasticsearchIndexError ''Error removing document: connection refused'')
   \<and> fst (PackageSearchIndex_update_dict scripted Map.empty doc_a False (world0 [Some refused]))
     = Inl (Raise SearchIndexError ''Error indexing package: connection refused'')
   \<and> fst (PackageSearchIndex_update_dict scripted Map.empty doc_a False
            (world0 [None, Some refused]))
     = Inl (Raise SearchIndexError ''Error indexing package: connection refused'')
   \<and> fst (PackageSearchIndex_remove_dict scripted Map.empty None doc_a (world0 [Some refused]))
     = Inl (Raise SearchIndexError ''Error removing package: connection refused'')
   \<and> fst (SearchIndex_update_dict scripted doc_a (world0 [Some not_found, Some refused]))
     = Inl (Raise ElasticsearchIndexError ''Error inserting document: connection refused'')
   \<and> fst (PackageSearchIndex_remove_dict scripted Map.empty None doc_a (world0 [Some not_found]))
     = Inr ()
   \<and> fst (SearchIndex_clear scripted Map.empty (world0 [Some refused])) = Inl refused
   \<and> fst (SearchIndex_clear scripted Map.empty (world0 [None, Some refused])) = Inl refused"
proof -
  note defs = world0_def doc_a_def refused_def not_found_def index_name_def config_get_def
    dict_get_def invoke_def
  have first_call:
    "fst (SearchIndex_insert_dict scripted doc_a (world0 [Some refused]))
       = Inl (Raise ElasticsearchIndexError ''Error inserting document: connection refused'')
     \<and> fst (SearchIndex_update_dict scripted doc_a (world0 [Some refused]))
       = Inl (Raise ElasticsearchIndexError ''Error updating document: connection refused'')
     \<and> fst (SearchIndex_remove_dict scripted doc_a (world0 [Some refused]))
       = Inl (Raise ElasticsearchIndexError ''Error removing document: connection refused'')
     \<and> fst (PackageSearchIndex_update_dict scripted Map.empty doc_a False (world0 [Some refused]))
       = Inl (Raise SearchIndexError ''Error indexing package: connection refused'')
     \<and> fst (PackageSearchIndex_remove_dict scripted Map.empty None doc_a (world0 [Some refused]))
       = Inl (Raise SearchIndexError ''Error removing package: connection refused'')
     \<and> fst (SearchIndex_clear scripted Map.empty (world0 [Some refused])) = Inl refused"
    using engine_exceptions_wrapped_except_not_found
      [of scripted doc_a "world0 [Some refused]" refused "VStr ''a''" Map.empty False
          "[]" None None VNone "[]"]
    by (simp add: defs)
  have refresh:
    "fst (PackageSearchIndex_update_dict scripted Map.empty doc_a False
            (world0 [None, Some refused]))
       = Inl (Raise SearchIndexError ''Error indexing package: connection refused'')
     \<and> fst (SearchIndex_clear scripted Map.empty (world0 [None, Some refused])) = Inl refused"
    using engine_exceptions_wrapped_except_not_found
      [of scripted doc_a "world0 [None, Some refused]" refused "VStr ''a''" Map.empty False
          "[Some refused]" None None VNone "[Some refused]"]
    by (simp add: defs)
  have missing:
    "SearchIndex_update_dict scripted doc_a (world0 [Some not_found, Some refused])
       = SearchIndex_insert_dict scripted doc_a
           (snd (invoke scripted (Update ELASTICSEARCH_INDEX (dict_get doc_a ''id'') doc_a)
                   (world0 [Some not_found, Some refused])))
     \<and> fst (PackageSearchIndex_remove_dict scripted Map.empty None doc_a
              (world0 [Some not_found])) = Inr ()"
    using engine_exceptions_wrapped_except_not_found
      [of scripted doc_a "world0 [Some not_found, Some refused]" not_found "VStr ''a''" Map.empty
          False "[]" None None VNone "[]"]
      engine_exceptions_wrapped_except_not_found
      [of scripted doc_a "world0 [Some not_found]" not_found "VStr ''a''" Map.empty
          False "[]" None None VNone "[]"]
    by (simp add: world0_def doc_a_def not_found_def index_name_def config_get_def dict_get_def)
  have fallback:
    "fst (SearchIndex_insert_dict scripted doc_a
           (snd (invoke scripted (Update ELASTICSEARCH_INDEX (dict_get doc_a ''id'') doc_a)
                   (world0 [Some not_found, Some refused]))))
       = Inl (Raise ElasticsearchIndexError ''Error inserting document: connection refused'')"
    using engine_exceptions_wrapped_except_not_found
      [of scripted doc_a
          "snd (invoke scripted (Update ELASTICSEARCH_INDEX (dict_get doc_a ''id'') doc_a)
                  (world0 [Some not_found, Some refused]))"
          refused "VStr ''a''" Map.empty False "[]" None None VNone "[]"]
    by (simp add: defs)
  show ?thesis
    using first_call refresh missing fallback by simp
qed

text \<open>
  C6 as stated fails on clearing: the engine refuses the index deletion and
  \<^verbatim>\<open>SearchIndex.clear\<close> of \<^verbatim>\<open>index.py\<close>, which has no handler, lets the engine's own
  exception leave, not an indexing error.
\<close>

theorem clear_lets_engine_exception_escape:
  "fst (scripted (IndicesDelete (index_name Map.empty) [400, 404]) [Some refused]) = Some refused
   \<and> fst (SearchIndex_clear scripted Map.empty (world0 [Some refused])) = Inl refused
   \<and> exc_cls refused \<noteq> SearchIndexError
   \<and> exc_cls refused \<noteq> ElasticsearchIndexError"
  by (simp add: SearchIndex_clear_def invoke_def world0_def index_name_def config_get_def
      refused_def)


section \<open>Calls made through the client\<close>














section \<open>The query runner\<close>

lemma build_q_cases:
  "map_of query ''q'' = None \<Longrightarrow> build_q query = MatchAll"
  "map_of query ''q'' = Some v \<Longrightarrow> \<not> truthy v \<Longrightarrow> build_q query = MatchAll"
  "map_of query ''q'' = Some v \<Longrightarrow> truthy v \<Longrightarrow> build_q query = MultiMatch v MATCH_FIELDS"
  by (simp_all add: build_q_def)

lemma run_search_query:
  "run_search cfg query = Inr (sq, s) \<Longrightarrow> s_query sq = Some (build_q query)"
  by (auto simp: run_search_def query_make_connection_def Let_def split: sum.splits)

text \<open>
  C5: when the request has no key 'q', or a value there that is false in Python (the
  empty string, None, zero, an empty list), the clause built is match-all; when the
  value is true, the clause is the multi-field match on that value with the weighted
  fields; and the search that is executed carries the clause built.
\<close>

theorem query_clause_by_free_text:
  "(map_of query ''q'' = None \<longrightarrow> build_q query = MatchAll)
   \<and> (map_of query ''q'' = Some v \<and> \<not> truthy v \<longrightarrow> build_q query = MatchAll)
   \<and> (map_of query ''q'' = Some v \<and> truthy v \<longrightarrow> build_q query = MultiMatch v MATCH_FIELDS)
   \<and> (run_search cfg query = Inr (sq, s) \<longrightarrow> s_query sq = Some (build_q query))"
  by (simp add: build_q_cases run_search_query)

theorem query_clause_by_free_text_witness:
  "map_of [] ''q'' = None
   \<and> build_q [] = MatchAll
   \<and> map_of [(''q'', VStr '''')] ''q'' = Some (VStr '''')
   \<and> \<not> truthy (VStr '''')
   \<and> build_q [(''q'', VStr '''')] = MatchAll
   \<and> map_of [(''q'', VStr ''open data'')] ''q'' = Some (VStr ''open data'')
   \<and> truthy (VStr ''open data'')
   \<and> build_q [(''q'', VStr ''open data'')] = MultiMatch (VStr ''open data'') MATCH_FIELDS
   \<and> run_search Map.empty []
       = Inr ((Search_new local_es (VStr ''ckan''))\<lparr>s_query := Some MatchAll\<rparr>,
              Search_new local_es (VStr ''ckan''))
   \<and> s_query ((Search_new local_es (VStr ''ckan''))\<lparr>s_query := Some MatchAll\<rparr>)
       = Some (build_q [])"
proof -
  have run: "run_search Map.empty []
       = Inr ((Search_new local_es (VStr ''ckan''))\<lparr>s_query := Some MatchAll\<rparr>,
              Search_new local_es (VStr ''ckan''))"
    by (simp add: run_search_def query_make_connection_def config_get_def index_name_def
        apply_filters_def apply_sort_def apply_start_def apply_rows_def build_q_def local_es_def
        Let_def)
  show ?thesis
    using run
      query_clause_by_free_text [of "[]" VNone Map.empty
        "(Search_new local_es (VStr ''ckan''))\<lparr>s_query := Some MatchAll\<rparr>"
        "Search_new local_es (VStr ''ckan'')"]
      query_clause_by_free_text [of "[(''q'', VStr '''')]" "VStr ''''"]
      query_clause_by_free_text [of "[(''q'', VStr ''open data'')]" "VStr ''open data''"]
    by simp
qed

text \<open>
  C8: the attribute \<^verbatim>\<open>facets\<close> is empty when the object is built, and a run that returns
  keeps it empty: the search was built, the engine answered, and the mapping returned
  has exactly the keys 'results', 'count' and 'facets', holding the hits as plain
  mappings, the total of the answer and the empty mapping, whatever the request says
  under 'facet'.
\<close>

theorem run_returns_results_count_empty_facets:
  assumes "facets self = []"
      and "PackageSearchQuery_run execute cfg query self = (Inr r, self')"
  shows "\<exists>sq s response.
           run_search cfg query = Inr (sq, s) \<and> execute sq = Inr response
           \<and> r = [(''results'', VList (map VDict (map to_dict (hits response)))),
                   (''count'', total_value response),
                   (''facets'', VDict [])]
           \<and> results self' = map to_dict (hits response)
           \<and> count self' = total_value response
           \<and> facets self' = []"
  using assms
  by (auto simp: PackageSearchQuery_run_def Let_def process_facets_def
      split: sum.splits option.splits prod.splits if_splits)

theorem run_returns_results_count_empty_facets_witness:
  "facets SearchQuery_new = []
   \<and> PackageSearchQuery_run one_hit Map.empty [(''facet'', VBool True)] SearchQuery_new
       = (Inr [(''results'', VList [VDict doc_a]), (''count'', VInt 1), (''facets'', VDict [])],
          \<lparr>results = [doc_a], count = VInt 1, facets = []\<rparr>)
   \<and> (\<exists>sq s response.
         run_search Map.empty [(''facet'', VBool True)] = Inr (sq, s)
         \<and> one_hit sq = Inr response
         \<and> [(''results'', VList [VDict doc_a]), (''count'', VInt 1), (''facets'', VDict [])]
             = [(''results'', VList (map VDict (map to_dict (hits response)))),
                (''count'', total_value response),
                (''facets'', VDict [])]
         \<and> results \<lparr>results = [doc_a], count = VInt 1, facets = []\<rparr>
             = map to_dict (hits response)
         \<and> count \<lparr>results = [doc_a], count = VInt 1, facets = []\<rparr> = total_value response
         \<and> facets \<lparr>results = [doc_a], count = VInt 1, facets = ([]::pydict)\<rparr> = [])"
proof -
  have h1: "facets SearchQuery_new = []"
    by (simp add: SearchQuery_new_def)
  have h2: "PackageSearchQuery_run one_hit Map.empty [(''facet'', VBool True)] SearchQuery_new
       = (Inr [(''results'', VList [VDict doc_a]), (''count'', VInt 1), (''facets'', VDict [])],
          \<lparr>results = [doc_a], count = VInt 1, facets = []\<rparr>)"
    by (simp add: PackageSearchQuery_run_def run_search_def query_make_connection_def
        config_get_def index_name_def apply_filters_def apply_sort_def apply_start_def
        apply_rows_def build_q_def Let_def one_hit_def to_dict_def process_facets_def
        SearchQuery_new_def)
  show ?thesis
    using h1 h2 run_returns_results_count_empty_facets [OF h1 h2]
    by simp
qed

end
